theory Spec2Isabelle
  imports Main "HOL-Library.AList"
begin

section \<open>JavaScript values and strings\<close>

text \<open>
  The two servers (\<^verbatim>\<open>server-decentralized.js\<close> and the second version of
  \<^verbatim>\<open>server.js\<close>) exchange JSON with their clients and keep JavaScript objects in
  memory. Objects are association lists in insertion order; a number is an integer here.
  A property holding \<^verbatim>\<open>undefined\<close> is kept in memory (\<open>JUndefined\<close>) and left out when the
  object is serialised; an optional string (\<^verbatim>\<open>undefined\<close> or a string) is a
  \<open>string option\<close>.
\<close>

datatype json =
    JUndefined
  | JNull
  | JBool bool
  | JNum int
  | JStr string
  | JArr "json list"
  | JObj "(string \<times> json) list"

text \<open>Truthiness of a value, as \<^verbatim>\<open>if (v)\<close>, \<^verbatim>\<open>!v\<close>, \<^verbatim>\<open>a && b\<close> and \<^verbatim>\<open>a || b\<close> read it.\<close>

fun truthy :: "json \<Rightarrow> bool" where
  "truthy JUndefined = False"
| "truthy JNull = False"
| "truthy (JBool b) = b"
| "truthy (JNum n) = (n \<noteq> 0)"
| "truthy (JStr s) = (s \<noteq> [])"
| "truthy (JArr xs) = True"
| "truthy (JObj fs) = True"

text \<open>An optional string is truthy when it is defined and not empty.\<close>

fun truthy_str :: "string option \<Rightarrow> bool" where
  "truthy_str None = False"
| "truthy_str (Some s) = (s \<noteq> [])"

text \<open>\<^verbatim>\<open>a || b\<close> on optional strings: the first operand when it is truthy, else the second.\<close>

definition js_or :: "string option \<Rightarrow> string option \<Rightarrow> string option" where
  "js_or a b = (if truthy_str a then a else b)"

text \<open>An optional string inside a template literal: \<^verbatim>\<open>undefined\<close> prints as that word.\<close>

fun template :: "string option \<Rightarrow> string" where
  "template None = ''undefined''"
| "template (Some s) = s"

text \<open>\<^verbatim>\<open>s.startsWith(p)\<close>, \<^verbatim>\<open>s.includes(p)\<close> and \<^verbatim>\<open>s.split(d)\<close> for a one-character \<open>d\<close>.\<close>

definition startsWith :: "string \<Rightarrow> string \<Rightarrow> bool" where
  "startsWith s p = (take (length p) s = p)"

fun str_includes :: "string \<Rightarrow> string \<Rightarrow> bool" where
  "str_includes [] p = (p = [])"
| "str_includes (c # cs) p = (startsWith (c # cs) p \<or> str_includes cs p)"

fun split :: "char \<Rightarrow> string \<Rightarrow> string list" where
  "split d [] = [[]]"
| "split d (c # cs) =
     (if c = d then [] # split d cs
      else (case split d cs of
              [] \<Rightarrow> [[c]]
            | p # ps \<Rightarrow> (c # p) # ps))"

text \<open>Reading a property of an object built from JSON: its value, or \<^verbatim>\<open>undefined\<close>.\<close>

definition obj_get :: "(string \<times> json) list \<Rightarrow> string \<Rightarrow> json" where
  "obj_get fs k = (case map_of fs k of None \<Rightarrow> JUndefined | Some v \<Rightarrow> v)"

text \<open>
  Object spread \<^verbatim>\<open>{...a, ...b}\<close>: the properties of \<open>b\<close> are assigned onto \<open>a\<close> in
  order; assigning an existing key keeps its position and replaces its value
  (\<open>AList.update\<close>), a new key is appended.
\<close>

definition spread :: "(string \<times> json) list \<Rightarrow> (string \<times> json) list \<Rightarrow> (string \<times> json) list" where
  "spread a b = fold (\<lambda>kv acc. AList.update (fst kv) (snd kv) acc) b a"

text \<open>An optional string as a value.\<close>

fun opt_str :: "string option \<Rightarrow> json" where
  "opt_str None = JUndefined"
| "opt_str (Some s) = JStr s"

text \<open>A natural number in a template literal (\<^verbatim>\<open>Date.now()\<close>): its decimal digits.\<close>

definition digit :: "nat \<Rightarrow> char" where
  "digit n = char_of (48 + n)"

fun show_nat :: "nat \<Rightarrow> string" where
  "show_nat n = (if n < 10 then [digit n] else show_nat (n div 10) @ [digit (n mod 10)])"

declare show_nat.simps [simp del]

section \<open>Network configuration (\<^verbatim>\<open>getNetworkConfig\<close>)\<close>

record env =
  ETH_NETWORK :: "string option"
  ETH_PROVIDER_URL :: "string option"
  ETH_REGISTRY_ADDRESS :: "string option"
  ETH_REGISTRY_ADDRESS_SEPOLIA :: "string option"

record network_config =
  name :: "string option"
  rpcUrl :: "string option"
  registry :: "string option"
  chainId :: "int option"

definition SKALE_TITAN_CONFIG :: "env \<Rightarrow> network_config" where
  "SKALE_TITAN_CONFIG e =
     \<lparr> name = Some ''skale-titan'',
       rpcUrl = Some ''https://testnet.skalenodes.com/v1/aware-fake-trim-testnet'',
       registry = js_or (ETH_REGISTRY_ADDRESS_SEPOLIA e)
                    (Some ''0x0979446EB2A4a373eaA702336aC3c390B0139Fc5''),
       chainId = Some 1020352220 \<rparr>"

definition SEPOLIA_CONFIG :: network_config where
  "SEPOLIA_CONFIG =
     \<lparr> name = Some ''sepolia'',
       rpcUrl = Some ''https://sepolia.infura.io/v3/189303beb46d46d8a0327f90f441168d'',
       registry = Some ''0xc0660d54f4655dC3B045D69ced4308f1709FD35e'',
       chainId = Some 11155111 \<rparr>"

text \<open>The own properties of the object literal \<^verbatim>\<open>NETWORK_CONFIGS\<close>.\<close>

definition NETWORK_CONFIGS :: "env \<Rightarrow> (string \<times> network_config) list" where
  "NETWORK_CONFIGS e =
     [ (''skale-titan'', SKALE_TITAN_CONFIG e),
       (''skale'', SKALE_TITAN_CONFIG e),
       (''sepolia'', SEPOLIA_CONFIG) ]"

text \<open>
  \<^verbatim>\<open>NETWORK_CONFIGS[networkName]\<close> is a property read on an object literal: when the
  name is no own property, the read goes on to \<^verbatim>\<open>Object.prototype\<close>, whose members
  are functions (each with a \<^verbatim>\<open>name\<close>) and the accessor \<^verbatim>\<open>__proto__\<close>, which yields
  \<^verbatim>\<open>Object.prototype\<close> itself. All of them are truthy, so \<^verbatim>\<open>||\<close> keeps them.
\<close>

datatype member =
    Preset network_config
  | InheritedFunction string
  | ObjectPrototype

definition Object_prototype :: "(string \<times> member) list" where
  "Object_prototype =
     [ (''constructor'', InheritedFunction ''Object''),
       (''__defineGetter__'', InheritedFunction ''__defineGetter__''),
       (''__defineSetter__'', InheritedFunction ''__defineSetter__''),
       (''hasOwnProperty'', InheritedFunction ''hasOwnProperty''),
       (''__lookupGetter__'', InheritedFunction ''__lookupGetter__''),
       (''__lookupSetter__'', InheritedFunction ''__lookupSetter__''),
       (''isPrototypeOf'', InheritedFunction ''isPrototypeOf''),
       (''propertyIsEnumerable'', InheritedFunction ''propertyIsEnumerable''),
       (''toString'', InheritedFunction ''toString''),
       (''valueOf'', InheritedFunction ''valueOf''),
       (''__proto__'', ObjectPrototype),
       (''toLocaleString'', InheritedFunction ''toLocaleString'') ]"

definition read_member :: "env \<Rightarrow> string \<Rightarrow> member option" where
  "read_member e k =
     (case map_of (NETWORK_CONFIGS e) k of
        Some c \<Rightarrow> Some (Preset c)
      | None \<Rightarrow> map_of Object_prototype k)"

text \<open>The four property reads \<^verbatim>\<open>config.name\<close>, \<^verbatim>\<open>config.rpcUrl\<close>,
  \<^verbatim>\<open>config.registry\<close> and \<^verbatim>\<open>config.chainId\<close> on what was found.\<close>

fun member_name :: "member \<Rightarrow> string option" where
  "member_name (Preset c) = name c"
| "member_name (InheritedFunction f) = Some f"
| "member_name ObjectPrototype = None"

fun member_rpcUrl :: "member \<Rightarrow> string option" where
  "member_rpcUrl (Preset c) = rpcUrl c"
| "member_rpcUrl (InheritedFunction f) = None"
| "member_rpcUrl ObjectPrototype = None"

fun member_registry :: "member \<Rightarrow> string option" where
  "member_registry (Preset c) = registry c"
| "member_registry (InheritedFunction f) = None"
| "member_registry ObjectPrototype = None"

fun member_chainId :: "member \<Rightarrow> int option" where
  "member_chainId (Preset c) = chainId c"
| "member_chainId (InheritedFunction f) = None"
| "member_chainId ObjectPrototype = None"

definition getNetworkConfig :: "env \<Rightarrow> network_config" where
  "getNetworkConfig e =
     (let networkName = template (js_or (ETH_NETWORK e) (Some ''skale-titan''));
          config = (case read_member e networkName of
                      Some m \<Rightarrow> m
                    | None \<Rightarrow> Preset (SKALE_TITAN_CONFIG e))
      in \<lparr> name = member_name config,
           rpcUrl = js_or (ETH_PROVIDER_URL e) (member_rpcUrl config),
           registry = js_or (ETH_REGISTRY_ADDRESS e) (member_registry config),
           chainId = member_chainId config \<rparr>)"

section \<open>Registry probing (\<^verbatim>\<open>checkRegistryDeployment\<close>)\<close>

text \<open>
  The chain is reached through \<^verbatim>\<open>ethers\<close>: importing the library and building a
  provider for the RPC URL either throws (\<open>Inl\<close> the message) or yields a provider, whose
  \<^verbatim>\<open>getCode(address)\<close> either throws or returns the bytecode as a string.
\<close>

type_synonym rpc_provider = "string option \<Rightarrow> string + string"
type_synonym ethers = "string option \<Rightarrow> string + rpc_provider"

record registry_check =
  isDeployed :: bool
  found :: "string option"

text \<open>\<^verbatim>\<open>code && code !== "0x"\<close>, read for its truthiness.\<close>

definition has_code :: "string \<Rightarrow> bool" where
  "has_code code = (code \<noteq> [] \<and> code \<noteq> ''0x'')"

definition knownRegistries :: "string list" where
  "knownRegistries =
     [ ''0xdca7ef03e98e0dc2b855be647c39abe984fcf21b'',
       ''0xd1d374dda6c5e1c0fd927de1c6c0e9cb7d7f12d3'',
       ''0x0000000000000000000000000000000000000000'' ]"

text \<open>The \<^verbatim>\<open>for\<close> loop over the candidates: the first one with code ends it; a throwing
  \<^verbatim>\<open>getCode\<close> is caught inside the loop body and the loop goes on.\<close>

fun probe_known :: "rpc_provider \<Rightarrow> string list \<Rightarrow> string option" where
  "probe_known getCode [] = None"
| "probe_known getCode (r # rs) =
     (case getCode (Some r) of
        Inl err \<Rightarrow> probe_known getCode rs
      | Inr registryCode \<Rightarrow>
          if has_code registryCode then Some r else probe_known getCode rs)"

definition checkRegistryDeployment :: "ethers \<Rightarrow> network_config \<Rightarrow> registry_check" where
  "checkRegistryDeployment eth networkConfig =
     (case eth (rpcUrl networkConfig) of
        Inl error \<Rightarrow> \<lparr> isDeployed = False, found = registry networkConfig \<rparr>
      | Inr getCode \<Rightarrow>
          (case getCode (registry networkConfig) of
             Inl error \<Rightarrow> \<lparr> isDeployed = False, found = registry networkConfig \<rparr>
           | Inr code \<Rightarrow>
               if \<not> has_code code \<and> name networkConfig = Some ''skale-titan''
               then (case probe_known getCode knownRegistries of
                       Some r \<Rightarrow> \<lparr> isDeployed = True, found = Some r \<rparr>
                     | None \<Rightarrow> \<lparr> isDeployed = has_code code, found = registry networkConfig \<rparr>)
               else \<lparr> isDeployed = has_code code, found = registry networkConfig \<rparr>))"

text \<open>What the chain says of an address when asked through \<open>eth\<close> for the RPC URL of
  \<open>cfg\<close>: that it holds code (\<open>deployed_on\<close>), or anything at all rather than an error
  (\<open>answers_on\<close>).\<close>

definition deployed_on :: "ethers \<Rightarrow> network_config \<Rightarrow> string option \<Rightarrow> bool" where
  "deployed_on eth cfg a =
     (case eth (rpcUrl cfg) of
        Inl err \<Rightarrow> False
      | Inr getCode \<Rightarrow> (case getCode a of Inl err \<Rightarrow> False | Inr code \<Rightarrow> has_code code))"

definition answers_on :: "ethers \<Rightarrow> network_config \<Rightarrow> string option \<Rightarrow> bool" where
  "answers_on eth cfg a =
     (case eth (rpcUrl cfg) of
        Inl err \<Rightarrow> False
      | Inr getCode \<Rightarrow> (case getCode a of Inl err \<Rightarrow> False | Inr code \<Rightarrow> True))"

text \<open>The same chain with every failing \<^verbatim>\<open>getCode\<close> answering the empty code instead.\<close>

definition errors_as_empty :: "ethers \<Rightarrow> ethers" where
  "errors_as_empty eth url =
     (case eth url of
        Inl err \<Rightarrow> Inl err
      | Inr getCode \<Rightarrow>
          Inr (\<lambda>a. case getCode a of Inl err \<Rightarrow> Inr ''0x'' | Inr code \<Rightarrow> Inr code))"

section \<open>The identity store (\<^verbatim>\<open>DIDRegistry\<close>) and the agent\<close>

text \<open>
  \<^verbatim>\<open>DIDRegistry.dids\<close> is a \<^verbatim>\<open>Map\<close> from a DID to its record, in insertion order:
  \<^verbatim>\<open>set\<close> on a key already there replaces the value in place. The Veramo agent is the
  external signing engine; every call made to it is logged, and what it answers may
  depend on the calls before. An identifier it creates is an object with a \<^verbatim>\<open>did\<close> and
  further properties of its own (\<open>props\<close>, read in order; a name given twice keeps its
  last value, and \<^verbatim>\<open>did\<close> is the one above).
\<close>

datatype agent_call = DidManagerCreate "(string \<times> json) list"

datatype iidentifier = Identifier (did: string) (props: "(string \<times> json) list")

type_synonym agent = "agent_call list \<Rightarrow> (string \<times> json) list \<Rightarrow> string + iidentifier"

record server =
  dids :: "(string \<times> json) list"
  agent_calls :: "agent_call list"

record clock =
  dateNow :: nat
  isoNow :: string

definition identifier_obj :: "iidentifier \<Rightarrow> (string \<times> json) list" where
  "identifier_obj i =
     spread [(''did'', JStr (did i))] (filter (\<lambda>kv. fst kv \<noteq> ''did'') (props i))"

definition registerDID :: "clock \<Rightarrow> string \<Rightarrow> (string \<times> json) list \<Rightarrow> server \<Rightarrow> server" where
  "registerDID clk d metadata st =
     st \<lparr> dids := AList.update d
                     (JObj (spread [(''did'', JStr d), (''createdAt'', JStr (isoNow clk))] metadata))
                     (dids st) \<rparr>"

definition getDID :: "server \<Rightarrow> string \<Rightarrow> json" where
  "getDID st d = (case map_of (dids st) d of None \<Rightarrow> JUndefined | Some r \<Rightarrow> r)"

definition getAllDIDs :: "server \<Rightarrow> json list" where
  "getAllDIDs st = map snd (dids st)"

definition isDIDRegistered :: "server \<Rightarrow> string \<Rightarrow> bool" where
  "isDIDRegistered st d = (map_of (dids st) d \<noteq> None)"

text \<open>\<^verbatim>\<open>await agent.didManagerCreate(createOptions)\<close>: the call is logged, then answered.\<close>

definition didManagerCreate ::
  "agent \<Rightarrow> (string \<times> json) list \<Rightarrow> server \<Rightarrow> (string + iidentifier) \<times> server" where
  "didManagerCreate ag createOptions st =
     (ag (agent_calls st) createOptions,
      st \<lparr> agent_calls := agent_calls st @ [DidManagerCreate createOptions] \<rparr>)"

section \<open>Creating an identity (\<^verbatim>\<open>POST /did/create\<close> of \<^verbatim>\<open>server-decentralized.js\<close>)\<close>

text \<open>The request body's four properties, each a JSON string or absent.\<close>

record create_request =
  provider :: "string option"
  aliasName :: "string option"
  walletAddress :: "string option"
  network :: "string option"

datatype response = Response (status: nat) (body: json)

text \<open>The test \<^verbatim>\<open>/^0x[a-fA-F0-9]{40}$/.test(walletAddress)\<close>.\<close>

definition is_hex :: "char \<Rightarrow> bool" where
  "is_hex c = (c \<in> set ''0123456789abcdefABCDEF'')"

definition valid_address :: "string \<Rightarrow> bool" where
  "valid_address w = (length w = 42 \<and> take 2 w = ''0x'' \<and> list_all is_hex (drop 2 w))"

definition invalid_address_response :: response where
  "invalid_address_response =
     Response 400 (JObj
       [ (''success'', JBool False),
         (''error'', JStr (''Invalid Ethereum wallet address format. Must be a 40-character hex string starting with '0x'' @ [CHR 0x27])) ])"

definition wallet_identifier :: "string \<Rightarrow> string \<Rightarrow> string option \<Rightarrow> json" where
  "wallet_identifier didIdentifier w targetNetwork =
     JObj [ (''did'', JStr didIdentifier),
            (''provider'', JStr ''did:ethr''),
            (''walletAddress'', JStr w),
            (''network'', opt_str targetNetwork) ]"

definition already_exists_response :: "string \<Rightarrow> string \<Rightarrow> string option \<Rightarrow> response" where
  "already_exists_response didIdentifier w targetNetwork =
     Response 200 (JObj
       [ (''success'', JBool True),
         (''identifier'', wallet_identifier didIdentifier w targetNetwork),
         (''message'', JStr ''Wallet-based DID already exists''),
         (''type'', JStr ''wallet-based''),
         (''note'', JStr ''This DID is linked to your wallet address. You control it with your wallet private key.'') ])"

definition wallet_created_response :: "string \<Rightarrow> string \<Rightarrow> string option \<Rightarrow> response" where
  "wallet_created_response didIdentifier w targetNetwork =
     Response 200 (JObj
       [ (''success'', JBool True),
         (''identifier'', wallet_identifier didIdentifier w targetNetwork),
         (''message'', JStr ''Wallet-based DID created successfully''),
         (''type'', JStr ''wallet-based''),
         (''note'', JStr ''This DID is linked to your wallet. Your wallet private key controls it.''),
         (''stored'', JStr ''blockchain (resolved from ERC1056 registry)'') ])"

definition wallet_metadata :: "string \<Rightarrow> string option \<Rightarrow> string option \<Rightarrow> (string \<times> json) list" where
  "wallet_metadata w targetNetwork al =
     [ (''provider'', JStr ''did:ethr''),
       (''walletAddress'', JStr w),
       (''network'', opt_str targetNetwork),
       (''type'', JStr ''wallet-based''),
       (''alias'', opt_str (js_or al (Some (''wallet-'' @ take 10 w)))) ]"

text \<open>The note of the generated-key response starts with a warning sign (U+26A0, U+FE0F),
  written here as its UTF-8 bytes.\<close>

definition generated_key_response :: "iidentifier \<Rightarrow> response" where
  "generated_key_response i =
     Response 200 (JObj
       [ (''success'', JBool True),
         (''identifier'', JObj (identifier_obj i)),
         (''type'', JStr ''generated-key''),
         (''note'', JStr ([CHR 0xE2, CHR 0x9A, CHR 0xA0, CHR 0xEF, CHR 0xB8, CHR 0x8F] @
            '' This DID uses a generated key. For blockchain persistence, use wallet-based DIDs (pass walletAddress)'')),
         (''stored'', JStr ''in-memory (session only, not persisted)''),
         (''recommendation'', JStr ''For production with thirdweb, use wallet-based DIDs: { provider: 'did:ethr', walletAddress: '0x...' }'') ])"

definition self_issued_response :: "iidentifier \<Rightarrow> response" where
  "self_issued_response i =
     Response 200 (JObj
       [ (''success'', JBool True),
         (''identifier'', JObj (identifier_obj i)),
         (''type'', JStr ''self-issued''),
         (''note'', JStr ''Self-issued DID using did:key method. No blockchain required.''),
         (''stored'', JStr ''in-memory (ephemeral, can be recreated)'') ])"

text \<open>
  The last branch answers \<^verbatim>\<open>res.status(400).json({...})\<close> with an object literal whose
  last property is \<^verbatim>\<open>error: error.message\<close>. The object is built before \<^verbatim>\<open>json\<close> is
  called, so the identifier \<^verbatim>\<open>error\<close> is looked up in the scope of that branch: the
  handler's parameters, the destructured body and the module's top-level bindings. The
  parameter of \<^verbatim>\<open>catch (error)\<close> is bound in the catch block only. A name that is not
  bound throws a \<^verbatim>\<open>ReferenceError\<close>, which the \<^verbatim>\<open>catch\<close> block of the handler then
  answers. (Were the name bound, the 400 would be sent with whatever its \<^verbatim>\<open>message\<close>
  is; \<open>JUndefined\<close> stands for that value below.)
\<close>

definition create_scope :: "string list" where
  "create_scope =
     [ ''req'', ''res'', ''provider'', ''alias'', ''walletAddress'', ''network'',
       ''dotenv'', ''express'', ''cors'', ''createAgent'', ''CredentialPlugin'', ''KeyStore'',
       ''PrivateKeyStore'', ''DIDStore'', ''Entities'', ''DIDManager'', ''EthrDIDProvider'',
       ''KeyDIDProvider'', ''DIDResolverPlugin'', ''KeyManager'', ''KeyManagementSystem'',
       ''SecretBox'', ''MessageHandler'', ''createConnection'', ''Resolver'',
       ''ethrDidResolver'', ''keyDidResolver'', ''VCStore'', ''DIDRegistry'',
       ''SKALE_TITAN_CONFIG'', ''NETWORK_CONFIGS'', ''getNetworkConfig'',
       ''checkRegistryDeployment'', ''app'', ''PORT'', ''agent'', ''SECRET_KEY'',
       ''dbConnection'', ''initializeAgent'', ''startServer'' ]"

definition supported_methods :: json where
  "supported_methods =
     JObj [ (''wallet-based'', JObj
               [ (''provider'', JStr ''did:ethr''),
                 (''walletAddress'', JStr ''0x742d35Cc6634C0532925a3b844Bc9e7595f42bE''),
                 (''network'', JStr ''skale-titan (optional)''),
                 (''note'', JStr ''Best for thirdweb integration'') ]),
            (''generated-key'', JObj
               [ (''provider'', JStr ''did:ethr''),
                 (''note'', JStr ''Generates a new key, Veramo manages it'') ]),
            (''self-issued'', JObj
               [ (''provider'', JStr ''did:key''),
                 (''note'', JStr ''Self-issued DID, no blockchain needed'') ]) ]"

text \<open>The object literal of the last branch, given what \<^verbatim>\<open>error.message\<close> evaluates to:
  the repeated keys \<^verbatim>\<open>success\<close> and \<^verbatim>\<open>error\<close> keep their first position and take
  the last value.\<close>

definition unsupported_response :: "json \<Rightarrow> response" where
  "unsupported_response error_message =
     Response 400 (JObj
       [ (''success'', JBool False),
         (''error'', error_message),
         (''supported_methods'', supported_methods) ])"

definition unsupported_branch :: "string + response" where
  "unsupported_branch =
     (if ''error'' \<in> set create_scope
      then Inr (unsupported_response JUndefined)
      else Inl ''error is not defined'')"

text \<open>The two constants of the wallet branch: \<^verbatim>\<open>network || networkConfig.name\<close> and
  \<^verbatim>\<open>`did:ethr:${targetNetwork}:${walletAddress}`\<close>.\<close>

definition targetNetwork :: "env \<Rightarrow> create_request \<Rightarrow> string option" where
  "targetNetwork e req = js_or (network req) (name (getNetworkConfig e))"

definition didIdentifier :: "env \<Rightarrow> create_request \<Rightarrow> string" where
  "didIdentifier e req =
     ''did:ethr:'' @ template (targetNetwork e req) @ '':'' @ template (walletAddress req)"

text \<open>The body of the \<^verbatim>\<open>try\<close> block: \<open>Inl\<close> is a thrown error's message.\<close>

definition create_try ::
  "agent \<Rightarrow> env \<Rightarrow> clock \<Rightarrow> create_request \<Rightarrow> server \<Rightarrow> (string + response) \<times> server" where
  "create_try ag e clk req st =
     (let prov = (case provider req of None \<Rightarrow> ''did:key'' | Some p \<Rightarrow> p) in
      if prov = ''did:ethr'' \<and> truthy_str (walletAddress req) then
        (let w = template (walletAddress req) in
         if \<not> valid_address w then (Inr invalid_address_response, st)
         else
           (if isDIDRegistered st (didIdentifier e req)
            then (Inr (already_exists_response (didIdentifier e req) w (targetNetwork e req)), st)
            else (Inr (wallet_created_response (didIdentifier e req) w (targetNetwork e req)),
                  registerDID clk (didIdentifier e req)
                    (wallet_metadata w (targetNetwork e req) (aliasName req)) st)))
      else if prov = ''did:ethr'' \<and> \<not> truthy_str (walletAddress req) then
        (let networkConfig = getNetworkConfig e;
             createOptions =
               [ (''provider'', JStr ''did:ethr''),
                 (''alias'', opt_str (js_or (aliasName req)
                                (Some (''did-generated-'' @ show_nat (dateNow clk))))),
                 (''options'', JObj [ (''anchor'', JBool False),
                                      (''network'', opt_str (name networkConfig)) ]) ]
         in case didManagerCreate ag createOptions st of
              (Inl err, st') \<Rightarrow> (Inl err, st')
            | (Inr i, st') \<Rightarrow>
                (Inr (generated_key_response i),
                 registerDID clk (did i)
                   (spread (identifier_obj i)
                      [ (''type'', JStr ''generated-key''),
                        (''note'', JStr ''This is a generated key. Veramo stores the private key.'') ])
                   st'))
      else if prov = ''did:key'' then
        (let createOptions =
               [ (''provider'', JStr ''did:key''),
                 (''alias'', opt_str (js_or (aliasName req)
                                (Some (''key-'' @ show_nat (dateNow clk))))) ]
         in case didManagerCreate ag createOptions st of
              (Inl err, st') \<Rightarrow> (Inl err, st')
            | (Inr i, st') \<Rightarrow>
                (Inr (self_issued_response i),
                 registerDID clk (did i)
                   (spread (identifier_obj i)
                      [ (''type'', JStr ''self-issued''),
                        (''note'', JStr ''Self-issued DID, no blockchain required'') ])
                   st'))
      else (unsupported_branch, st))"

text \<open>The handler: what the \<^verbatim>\<open>try\<close> block answers, or the \<^verbatim>\<open>catch\<close> block's 500.\<close>

definition error_response :: "string \<Rightarrow> response" where
  "error_response msg =
     Response 500 (JObj [ (''success'', JBool False), (''error'', JStr msg) ])"

definition did_create ::
  "agent \<Rightarrow> env \<Rightarrow> clock \<Rightarrow> create_request \<Rightarrow> server \<Rightarrow> response \<times> server" where
  "did_create ag e clk req st =
     (case create_try ag e clk req st of
        (Inl msg, st') \<Rightarrow> (error_response msg, st')
      | (Inr r, st') \<Rightarrow> (r, st'))"

section \<open>Resolving a DID (\<^verbatim>\<open>GET /did/:did/resolve\<close> of \<^verbatim>\<open>server-decentralized.js\<close>)\<close>














text \<open>Reading a property of a value that may be an object.\<close>

definition field :: "json \<Rightarrow> string \<Rightarrow> json" where
  "field v k = (case v of JObj fs \<Rightarrow> obj_get fs k | _ \<Rightarrow> JUndefined)"



section \<open>SKALE-compatible verification (\<^verbatim>\<open>POST /credential/verify-skale\<close> of \<^verbatim>\<open>server.js\<close>)\<close>

text \<open>
  \<^verbatim>\<open>agent.verifyCredential({ credential })\<close> is the one place where a signature is
  checked; it throws or returns its result. The fallback for a JWT string decodes the
  middle part (\<^verbatim>\<open>Buffer.from(.., "base64url")\<close>, \<^verbatim>\<open>JSON.parse\<close>) and compares the expiry
  with the clock: both belong to the runtime and are parameters here.
\<close>

type_synonym verifier = "json \<Rightarrow> string + json"

record runtime =
  decode_payload :: "string \<Rightarrow> string + json"
  after_now :: "json \<Rightarrow> bool"

definition js_and :: "json \<Rightarrow> json \<Rightarrow> json" where
  "js_and a b = (if truthy a then b else a)"

text \<open>\<^verbatim>\<open>payload.vc && payload.iss && payload.sub && payload.iat && payload.exp &&
  payload.exp > Date.now() / 1000\<close>. Reading \<^verbatim>\<open>vc\<close> of \<^verbatim>\<open>null\<close> throws; on any other
  value that is no object \<^verbatim>\<open>vc\<close> is \<^verbatim>\<open>undefined\<close> and the chain ends there.\<close>

definition isValid :: "runtime \<Rightarrow> json \<Rightarrow> string + json" where
  "isValid rt payload =
     (case payload of
        JObj fs \<Rightarrow>
          Inr (js_and (obj_get fs ''vc'')
                (js_and (obj_get fs ''iss'')
                  (js_and (obj_get fs ''sub'')
                    (js_and (obj_get fs ''iat'')
                      (js_and (obj_get fs ''exp'')
                        (JBool (after_now rt (obj_get fs ''exp''))))))))
      | JNull \<Rightarrow> Inl ''Cannot read properties of null (reading 'vc')''
      | JUndefined \<Rightarrow> Inl ''Cannot read properties of undefined (reading 'vc')''
      | _ \<Rightarrow> Inr JUndefined)"

definition fallback_jwt_response :: "json \<Rightarrow> json \<Rightarrow> response" where
  "fallback_jwt_response valid payload =
     Response 200 (JObj
       [ (''success'', JBool True),
         (''verification'', JObj
            [ (''verified'', valid),
              (''payload'', payload),
              (''error'', if truthy valid then JNull else JStr ''Basic validation failed'') ]),
         (''method'', JStr ''fallback_jwt''),
         (''note'', JStr ''Verified using fallback method due to SKALE registry issues'') ])"

definition fallback_object_response :: "json \<Rightarrow> response" where
  "fallback_object_response credential =
     Response 200 (JObj
       [ (''success'', JBool True),
         (''verification'', JObj
            [ (''verified'', JBool True),
              (''payload'', credential),
              (''error'', JNull) ]),
         (''method'', JStr ''fallback_object''),
         (''note'', JStr ''Verified using fallback method due to SKALE registry issues'') ])"

text \<open>\<^verbatim>\<open>typeof credential === "object" && credential.credentialSubject\<close>: arrays and
  \<^verbatim>\<open>null\<close> are objects to \<^verbatim>\<open>typeof\<close>; an array parsed from JSON has no such property.\<close>

fun object_with_subject :: "json \<Rightarrow> bool" where
  "object_with_subject (JObj fs) = truthy (obj_get fs ''credentialSubject'')"
| "object_with_subject _ = False"

text \<open>The inner \<^verbatim>\<open>try\<close> block of the fallback: \<open>Inl\<close> is the message of what it throws.\<close>

definition fallback_try :: "runtime \<Rightarrow> json \<Rightarrow> string + response" where
  "fallback_try rt credential =
     (let jwt =
        (case credential of
           JStr s \<Rightarrow>
             if str_includes s ''.'' \<and> length (split CHR ''.'' s) = 3
             then Some (case decode_payload rt (split CHR ''.'' s ! 1) of
                          Inl err \<Rightarrow> Inl err
                        | Inr payload \<Rightarrow>
                            (case isValid rt payload of
                               Inl err \<Rightarrow> Inl err
                             | Inr valid \<Rightarrow> Inr (fallback_jwt_response valid payload)))
             else None
         | _ \<Rightarrow> None)
      in case jwt of
           Some outcome \<Rightarrow> outcome
         | None \<Rightarrow>
             if object_with_subject credential
             then Inr (fallback_object_response credential)
             else Inl ''Unable to verify credential with fallback methods'')"

definition missing_credential_response :: response where
  "missing_credential_response =
     Response 400 (JObj
       [ (''success'', JBool False),
         (''error'', JStr ''Missing required field: credential'') ])"

definition both_failed_response :: "string \<Rightarrow> string \<Rightarrow> response" where
  "both_failed_response registryError fallbackError =
     Response 500 (JObj
       [ (''success'', JBool False),
         (''error'', JStr ''Both standard and fallback verification methods failed''),
         (''details'', JObj
            [ (''registryError'', JStr registryError),
              (''fallbackError'', JStr fallbackError) ]) ])"

definition verify_skale :: "verifier \<Rightarrow> runtime \<Rightarrow> json \<Rightarrow> response" where
  "verify_skale verifyCredential rt credential =
     (if \<not> truthy credential then missing_credential_response
      else
        (case verifyCredential credential of
           Inr result \<Rightarrow>
             Response 200 (JObj
               [ (''success'', JBool True),
                 (''verification'', result),
                 (''method'', JStr ''standard'') ])
         | Inl registryError \<Rightarrow>
             (case fallback_try rt credential of
                Inr r \<Rightarrow> r
              | Inl fallbackError \<Rightarrow> both_failed_response registryError fallbackError)))"

section \<open>Concrete inputs\<close>

definition env_default :: env where
  "env_default =
     \<lparr> ETH_NETWORK = None, ETH_PROVIDER_URL = None,
       ETH_REGISTRY_ADDRESS = None, ETH_REGISTRY_ADDRESS_SEPOLIA = None \<rparr>"

definition env_constructor :: env where
  "env_constructor = env_default \<lparr> ETH_NETWORK := Some ''constructor'' \<rparr>"

definition env_sepolia :: env where
  "env_sepolia = env_default \<lparr> ETH_NETWORK := Some ''sepolia'' \<rparr>"

text \<open>A chain on which only the second known registry holds code.\<close>

fun getCode_second :: rpc_provider where
  "getCode_second a =
     (if a = Some ''0xd1d374dda6c5e1c0fd927de1c6c0e9cb7d7f12d3'' then Inr ''0x6080'' else Inr ''0x'')"

fun ethers_second :: ethers where
  "ethers_second url = Inr getCode_second"

text \<open>A chain on which the first two known registries hold code.\<close>

fun getCode_both :: rpc_provider where
  "getCode_both a =
     (if a = Some ''0xdca7ef03e98e0dc2b855be647c39abe984fcf21b'' then Inr ''0x6080''
      else if a = Some ''0xd1d374dda6c5e1c0fd927de1c6c0e9cb7d7f12d3'' then Inr ''0x6080''
      else Inr ''0x'')"

fun ethers_both :: ethers where
  "ethers_both url = Inr getCode_both"

text \<open>A chain on which the first known registry cannot be queried and the second holds code.\<close>

fun getCode_first_throws :: rpc_provider where
  "getCode_first_throws a =
     (if a = Some ''0xdca7ef03e98e0dc2b855be647c39abe984fcf21b'' then Inl ''timeout''
      else if a = Some ''0xd1d374dda6c5e1c0fd927de1c6c0e9cb7d7f12d3'' then Inr ''0x6080''
      else Inr ''0x'')"

fun ethers_first_throws :: ethers where
  "ethers_first_throws url = Inr getCode_first_throws"

text \<open>A chain on which the configured registry cannot be queried and every known registry
  holds code.\<close>

fun getCode_primary_throws :: rpc_provider where
  "getCode_primary_throws a =
     (if a = Some ''0x0979446EB2A4a373eaA702336aC3c390B0139Fc5'' then Inl ''invalid address''
      else Inr ''0x6080'')"

fun ethers_primary_throws :: ethers where
  "ethers_primary_throws url = Inr getCode_primary_throws"

text \<open>An agent that creates one fixed \<^verbatim>\<open>did:key\<close> identifier, a resolver and a verifier
  that always throw, and a runtime that decodes nothing.\<close>

fun agent_key :: agent where
  "agent_key calls createOptions =
     Inr (Identifier ''did:key:z6MkhaXgBZDvotDkL5257faiztiGiC2QtKLGpbnnEGta2doK''
            [ (''provider'', JStr ''did:key''), (''keys'', JArr []), (''services'', JArr []) ])"


fun verifier_throws :: verifier where
  "verifier_throws credential = Inl ''EVM revert instruction''"

fun decode_nothing :: "string \<Rightarrow> string + json" where
  "decode_nothing s = Inl ''Unexpected end of JSON input''"

fun never_after :: "json \<Rightarrow> bool" where
  "never_after v = False"

definition runtime_plain :: runtime where
  "runtime_plain = \<lparr> decode_payload = decode_nothing, after_now = never_after \<rparr>"

definition config_default :: network_config where
  "config_default = getNetworkConfig env_default"

definition empty_server :: server where
  "empty_server = \<lparr> dids = [], agent_calls = [] \<rparr>"

definition clock1 :: clock where
  "clock1 = \<lparr> dateNow = 1000, isoNow = ''1970-01-01T00:00:01.000Z'' \<rparr>"


definition wallet_address :: string where
  "wallet_address = ''0x742d35Cc6634C0532925a3b844Bc9e7595f42bE1''"

definition wallet_did :: string where
  "wallet_did = ''did:ethr:skale-titan:0x742d35Cc6634C0532925a3b844Bc9e7595f42bE1''"

definition wallet_request :: create_request where
  "wallet_request =
     \<lparr> provider = Some ''did:ethr'', aliasName = Some ''my-wallet'',
       walletAddress = Some wallet_address, network = None \<rparr>"



definition generated_request :: create_request where
  "generated_request =
     \<lparr> provider = Some ''did:ethr'', aliasName = Some ''service'',
       walletAddress = None, network = None \<rparr>"

definition key_request :: create_request where
  "key_request =
     \<lparr> provider = Some ''did:key'', aliasName = Some ''holder'',
       walletAddress = None, network = None \<rparr>"

definition web_request :: create_request where
  "web_request =
     \<lparr> provider = Some ''did:web'', aliasName = None,
       walletAddress = None, network = None \<rparr>"

definition key_did :: string where
  "key_did = ''did:key:z6MkhaXgBZDvotDkL5257faiztiGiC2QtKLGpbnnEGta2doK''"

text \<open>The store after one wallet-linked creation, and after one self-issued creation.\<close>

definition server_after_wallet :: server where
  "server_after_wallet =
     snd (did_create agent_key env_default clock1 wallet_request empty_server)"

definition server_after_key :: server where
  "server_after_key =
     snd (did_create agent_key env_default clock1 key_request empty_server)"

definition credential_null_subject :: json where
  "credential_null_subject =
     JObj [ (''issuer'', JStr ''did:key:anyone''), (''credentialSubject'', JNull) ]"

definition credential_unsigned :: json where
  "credential_unsigned =
     JObj [ (''issuer'', JStr ''did:key:anyone''),
            (''credentialSubject'', JObj [ (''degree'', JStr ''PhD'') ]) ]"

section \<open>Network configuration: which preset a name selects\<close>

lemma getNetworkConfig_known:
  assumes "ETH_NETWORK e = Some n" and "n \<noteq> []"
    and "map_of (NETWORK_CONFIGS e) n = Some c"
  shows "getNetworkConfig e =
           \<lparr> name = name c,
             rpcUrl = js_or (ETH_PROVIDER_URL e) (rpcUrl c),
             registry = js_or (ETH_REGISTRY_ADDRESS e) (registry c),
             chainId = chainId c \<rparr>"
  using assms by (simp add: getNetworkConfig_def js_or_def read_member_def)

lemma getNetworkConfig_unknown:
  assumes "ETH_NETWORK e = Some n" and "n \<noteq> []"
    and "map_of (NETWORK_CONFIGS e) n = None" and "map_of Object_prototype n = None"
  shows "getNetworkConfig e =
           \<lparr> name = Some ''skale-titan'',
             rpcUrl = js_or (ETH_PROVIDER_URL e) (rpcUrl (SKALE_TITAN_CONFIG e)),
             registry = js_or (ETH_REGISTRY_ADDRESS e) (registry (SKALE_TITAN_CONFIG e)),
             chainId = Some 1020352220 \<rparr>"
  using assms
  by (simp add: getNetworkConfig_def js_or_def read_member_def SKALE_TITAN_CONFIG_def)

text \<open>
  Claim C8: a requested network name that is no key of the preset table selects the
  default preset \<^verbatim>\<open>skale-titan\<close>. The name \<^verbatim>\<open>constructor\<close> is no key of the table, yet
  the property read finds \<^verbatim>\<open>Object.prototype.constructor\<close>, which is truthy, so the
  default is not substituted: the configuration is named \<^verbatim>\<open>Object\<close> and has neither an
  RPC URL, nor a registry, nor a chain id.
\<close>

theorem getNetworkConfig_constructor:
  "map_of (NETWORK_CONFIGS env_constructor) ''constructor'' = None \<and>
   getNetworkConfig env_constructor =
     \<lparr> name = Some ''Object'', rpcUrl = None, registry = None, chainId = None \<rparr> \<and>
   name (getNetworkConfig env_constructor) \<noteq> name (SKALE_TITAN_CONFIG env_constructor)"
  by (simp add: getNetworkConfig_def js_or_def read_member_def NETWORK_CONFIGS_def
      Object_prototype_def env_constructor_def env_default_def SKALE_TITAN_CONFIG_def)

section \<open>Creation with an unsupported method\<close>

lemma did_create_unsupported_any:
  assumes "provider req = Some p" and "p \<noteq> ''did:ethr''" and "p \<noteq> ''did:key''"
  shows "did_create ag e clk req st = (error_response ''error is not defined'', st)"
  using assms
  by (simp add: did_create_def create_try_def unsupported_branch_def create_scope_def)

text \<open>
  Claim C9: a creation request whose method is neither \<^verbatim>\<open>did:ethr\<close> nor \<^verbatim>\<open>did:key\<close>
  fails as a client error that lists the supported variants, and writes no record. For
  the method \<^verbatim>\<open>did:web\<close> no record is written, but the answer is a server error 500
  whose only content is the message of the \<^verbatim>\<open>ReferenceError\<close>; the list of supported
  methods is never sent.
\<close>

theorem did_create_unsupported:
  "did_create agent_key env_default clock1 web_request empty_server =
     (Response 500 (JObj [(''success'', JBool False), (''error'', JStr ''error is not defined'')]),
      empty_server)"
  by (simp add: did_create_def create_try_def web_request_def unsupported_branch_def
      create_scope_def error_response_def)

section \<open>Registry probing\<close>

lemma probe_known_none:
  "list_all (\<lambda>r. case getCode (Some r) of Inl err \<Rightarrow> True | Inr c \<Rightarrow> \<not> has_code c) rs
   \<Longrightarrow> probe_known getCode rs = None"
  by (induction rs) (auto split: sum.splits)

lemma probe_known_errors_as_empty:
  "probe_known (\<lambda>a. case getCode a of Inl err \<Rightarrow> Inr ''0x'' | Inr code \<Rightarrow> Inr code) rs
     = probe_known getCode rs"
  by (induction rs) (auto split: sum.splits simp: has_code_def)

text \<open>
  Claim C4, as amended: for every configuration named \<^verbatim>\<open>skale-titan\<close> whose configured
  registry is queried without error and holds no code, whose first known registry is not
  deployed and whose second one is, the probe answers deployed with the second known
  registry; and for every configuration whose configured registry and known registries
  are all not deployed, it answers not deployed with the configured registry.
\<close>

theorem probe_second_candidate:
  "(name cfg = Some ''skale-titan'' \<and> answers_on eth cfg (registry cfg) \<and>
    \<not> deployed_on eth cfg (registry cfg) \<and>
    \<not> deployed_on eth cfg (Some (knownRegistries ! 0)) \<and>
    deployed_on eth cfg (Some (knownRegistries ! 1))
    \<longrightarrow> checkRegistryDeployment eth cfg =
          \<lparr> isDeployed = True, found = Some (knownRegistries ! 1) \<rparr>) \<and>
   (\<not> deployed_on eth cfg (registry cfg) \<and>
    list_all (\<lambda>r. \<not> deployed_on eth cfg (Some r)) knownRegistries
    \<longrightarrow> checkRegistryDeployment eth cfg =
          \<lparr> isDeployed = False, found = registry cfg \<rparr>)"
proof (intro conjI impI)
  assume "name cfg = Some ''skale-titan'' \<and> answers_on eth cfg (registry cfg) \<and>
    \<not> deployed_on eth cfg (registry cfg) \<and>
    \<not> deployed_on eth cfg (Some (knownRegistries ! 0)) \<and>
    deployed_on eth cfg (Some (knownRegistries ! 1))"
  then show "checkRegistryDeployment eth cfg =
          \<lparr> isDeployed = True, found = Some (knownRegistries ! 1) \<rparr>"
    by (auto simp: checkRegistryDeployment_def answers_on_def deployed_on_def knownRegistries_def
        split: sum.splits)
next
  assume b: "\<not> deployed_on eth cfg (registry cfg) \<and>
    list_all (\<lambda>r. \<not> deployed_on eth cfg (Some r)) knownRegistries"
  show "checkRegistryDeployment eth cfg = \<lparr> isDeployed = False, found = registry cfg \<rparr>"
  proof (cases "eth (rpcUrl cfg)")
    case (Inl err)
    then show ?thesis by (simp add: checkRegistryDeployment_def)
  next
    case (Inr getCode)
    with b have "list_all (\<lambda>r. case getCode (Some r) of Inl err \<Rightarrow> True | Inr c \<Rightarrow> \<not> has_code c)
                   knownRegistries"
      by (auto simp: deployed_on_def list_all_iff split: sum.splits)
    then have "probe_known getCode knownRegistries = None" by (rule probe_known_none)
    with b Inr show ?thesis
      by (auto simp: checkRegistryDeployment_def deployed_on_def split: sum.splits)
  qed
qed

theorem probe_second_candidate_witness:
  "checkRegistryDeployment ethers_second config_default =
     \<lparr> isDeployed = True, found = Some ''0xd1d374dda6c5e1c0fd927de1c6c0e9cb7d7f12d3'' \<rparr>"
  using probe_second_candidate [of config_default ethers_second]
  by (simp add: config_default_def getNetworkConfig_def js_or_def read_member_def
      NETWORK_CONFIGS_def SKALE_TITAN_CONFIG_def env_default_def answers_on_def deployed_on_def
      has_code_def knownRegistries_def)

text \<open>
  The claim as stated fails on the \<^verbatim>\<open>sepolia\<close> configuration, where the known registries
  are never probed, and on a \<^verbatim>\<open>skale-titan\<close> chain whose first known registry is deployed
  too, where the first one is returned.
\<close>

theorem probe_second_candidate_counterexample:
  "deployed_on ethers_second SEPOLIA_CONFIG (registry SEPOLIA_CONFIG) = False \<and>
   deployed_on ethers_second SEPOLIA_CONFIG (Some (knownRegistries ! 1)) = True \<and>
   checkRegistryDeployment ethers_second SEPOLIA_CONFIG =
     \<lparr> isDeployed = False, found = registry SEPOLIA_CONFIG \<rparr> \<and>
   deployed_on ethers_both config_default (registry config_default) = False \<and>
   deployed_on ethers_both config_default (Some (knownRegistries ! 1)) = True \<and>
   checkRegistryDeployment ethers_both config_default =
     \<lparr> isDeployed = True, found = Some (knownRegistries ! 0) \<rparr>"
  by (simp add: config_default_def getNetworkConfig_def js_or_def read_member_def
      NETWORK_CONFIGS_def SKALE_TITAN_CONFIG_def env_default_def deployed_on_def
      has_code_def knownRegistries_def SEPOLIA_CONFIG_def checkRegistryDeployment_def)

text \<open>
  Claim C5, as amended: when the query of the configured registry answers, a failing
  query of a known registry counts as that registry holding no code and the probe goes
  on with the remaining ones (the result is that of the chain on which every failing
  query answers the empty code); when the query of the configured registry itself fails,
  the probe ends at once with not deployed and the configured registry, whatever the known
  registries hold.
\<close>

theorem probe_errors:
  "(answers_on eth cfg (registry cfg)
      \<longrightarrow> checkRegistryDeployment eth cfg = checkRegistryDeployment (errors_as_empty eth) cfg) \<and>
   (\<not> answers_on eth cfg (registry cfg)
      \<longrightarrow> checkRegistryDeployment eth cfg = \<lparr> isDeployed = False, found = registry cfg \<rparr>)"
  by (auto simp: checkRegistryDeployment_def answers_on_def errors_as_empty_def
      probe_known_errors_as_empty split: sum.splits)

theorem probe_errors_witness:
  "checkRegistryDeployment ethers_first_throws config_default =
     checkRegistryDeployment (errors_as_empty ethers_first_throws) config_default \<and>
   checkRegistryDeployment ethers_first_throws config_default =
     \<lparr> isDeployed = True, found = Some ''0xd1d374dda6c5e1c0fd927de1c6c0e9cb7d7f12d3'' \<rparr> \<and>
   checkRegistryDeployment ethers_primary_throws config_default =
     \<lparr> isDeployed = False, found = registry config_default \<rparr>"
  using probe_errors [of ethers_first_throws config_default]
        probe_errors [of ethers_primary_throws config_default]
  by (simp add: config_default_def getNetworkConfig_def js_or_def read_member_def
      NETWORK_CONFIGS_def SKALE_TITAN_CONFIG_def env_default_def answers_on_def
      has_code_def knownRegistries_def checkRegistryDeployment_def)

text \<open>
  The claim as stated fails when only the query of the configured registry throws: the
  known registries answer and hold code, yet the result is not deployed.
\<close>

theorem probe_errors_counterexample:
  "answers_on ethers_primary_throws config_default (Some (knownRegistries ! 0)) = True \<and>
   deployed_on ethers_primary_throws config_default (Some (knownRegistries ! 1)) = True \<and>
   checkRegistryDeployment ethers_primary_throws config_default =
     \<lparr> isDeployed = False, found = registry config_default \<rparr>"
  by (simp add: config_default_def getNetworkConfig_def js_or_def read_member_def
      NETWORK_CONFIGS_def SKALE_TITAN_CONFIG_def env_default_def answers_on_def deployed_on_def
      has_code_def knownRegistries_def checkRegistryDeployment_def)

section \<open>Objects, the store and the wallet branch\<close>

lemma spread_Cons: "spread a (kv # b) = spread (AList.update (fst kv) (snd kv) a) b"
  by (simp add: spread_def)

lemma spread_Nil: "spread a [] = a"
  by (simp add: spread_def)

lemma distinct_spread: "distinct (map fst a) \<Longrightarrow> distinct (map fst (spread a b))"
  by (induction b arbitrary: a) (simp_all add: spread_Cons spread_Nil distinct_update)

lemma map_of_spread:
  "distinct (map fst b) \<Longrightarrow> map_of (spread a b) = map_of a ++ map_of b"
proof (induction b arbitrary: a)
  case Nil
  then show ?case by (simp add: spread_Nil)
next
  case (Cons kv b)
  obtain k v where kv: "kv = (k, v)" by (cases kv)
  from Cons.prems kv have notin: "k \<notin> dom (map_of b)"
    by (auto simp: dom_map_of_conv_image_fst)
  have "map_of (spread a (kv # b)) = (map_of a)(k \<mapsto> v) ++ map_of b"
    using Cons kv by (simp add: spread_Cons update_conv')
  also have "\<dots> = map_of a ++ map_of (kv # b)"
    using notin kv by (auto simp: map_add_def fun_eq_iff split: option.splits)
  finally show ?case .
qed

lemma distinct_identifier_obj: "distinct (map fst (identifier_obj i))"
  by (simp add: identifier_obj_def distinct_spread)

lemma obj_get_tagged:
  "obj_get (spread [(''did'', JStr d), (''createdAt'', JStr t)]
      (spread (identifier_obj i) [(''type'', JStr ty), (''note'', JStr n)])) ''type'' = JStr ty"
proof -
  let ?m = "spread (identifier_obj i) [(''type'', JStr ty), (''note'', JStr n)]"
  have d: "distinct (map fst ?m)" by (rule distinct_spread) (rule distinct_identifier_obj)
  have "map_of ?m ''type'' = Some (JStr ty)"
    by (simp add: spread_Cons spread_Nil update_conv')
  then show ?thesis
    by (simp add: obj_get_def map_of_spread [OF d] map_add_def)
qed

lemma wallet_record:
  "spread [(''did'', JStr d), (''createdAt'', JStr t)] (wallet_metadata w tn al) =
     [ (''did'', JStr d), (''createdAt'', JStr t), (''provider'', JStr ''did:ethr''),
       (''walletAddress'', JStr w), (''network'', opt_str tn), (''type'', JStr ''wallet-based''),
       (''alias'', opt_str (js_or al (Some (''wallet-'' @ take 10 w)))) ]"
  by (simp add: wallet_metadata_def spread_def)

lemma isDIDRegistered_registerDID [simp]: "isDIDRegistered (registerDID clk d m st) d"
  by (simp add: isDIDRegistered_def registerDID_def update_conv')

lemma agent_calls_registerDID [simp]: "agent_calls (registerDID clk d m st) = agent_calls st"
  by (simp add: registerDID_def)

lemma dids_registerDID:
  "dids (registerDID clk d m st) =
     AList.update d (JObj (spread [(''did'', JStr d), (''createdAt'', JStr (isoNow clk))] m)) (dids st)"
  by (simp add: registerDID_def)


lemma valid_address_nonempty: "valid_address w \<Longrightarrow> w \<noteq> []"
  by (auto simp: valid_address_def)

lemma didIdentifier_alias [simp]: "didIdentifier e (req \<lparr> aliasName := a \<rparr>) = didIdentifier e req"
  by (simp add: didIdentifier_def targetNetwork_def)

lemma targetNetwork_alias [simp]: "targetNetwork e (req \<lparr> aliasName := a \<rparr>) = targetNetwork e req"
  by (simp add: targetNetwork_def)

lemma did_create_wallet:
  assumes "provider req = Some ''did:ethr''" and "walletAddress req = Some w" and "valid_address w"
  shows "did_create ag e clk req st =
     (if isDIDRegistered st (didIdentifier e req)
      then (already_exists_response (didIdentifier e req) w (targetNetwork e req), st)
      else (wallet_created_response (didIdentifier e req) w (targetNetwork e req),
            registerDID clk (didIdentifier e req)
              (wallet_metadata w (targetNetwork e req) (aliasName req)) st))"
  using assms valid_address_nonempty [of w]
  by (simp add: did_create_def create_try_def)


lemma wallet_facts:
  "valid_address wallet_address"
  "didIdentifier env_default wallet_request = wallet_did"
  "targetNetwork env_default wallet_request = Some ''skale-titan''"
  by (simp_all add: valid_address_def is_hex_def wallet_address_def didIdentifier_def
      targetNetwork_def wallet_request_def wallet_did_def getNetworkConfig_def js_or_def
      read_member_def NETWORK_CONFIGS_def SKALE_TITAN_CONFIG_def env_default_def)

lemma wallet_request_fields:
  "provider wallet_request = Some ''did:ethr''"
  "walletAddress wallet_request = Some wallet_address"
  "aliasName wallet_request = Some ''my-wallet''"
  by (simp_all add: wallet_request_def)

lemma server_after_wallet_eq:
  "server_after_wallet =
     \<lparr> dids = [(wallet_did, JObj
         [ (''did'', JStr wallet_did), (''createdAt'', JStr ''1970-01-01T00:00:01.000Z''),
           (''provider'', JStr ''did:ethr''), (''walletAddress'', JStr wallet_address),
           (''network'', JStr ''skale-titan''), (''type'', JStr ''wallet-based''),
           (''alias'', JStr ''my-wallet'') ])],
       agent_calls = [] \<rparr>"
proof -
  have "did_create agent_key env_default clock1 wallet_request empty_server =
     (wallet_created_response wallet_did wallet_address (Some ''skale-titan''),
      registerDID clock1 wallet_did
        (wallet_metadata wallet_address (Some ''skale-titan'') (Some ''my-wallet'')) empty_server)"
    using did_create_wallet [of wallet_request wallet_address agent_key env_default clock1
        empty_server]
    by (simp add: wallet_facts wallet_request_fields isDIDRegistered_def empty_server_def)
  then show ?thesis
    by (simp add: server_after_wallet_def registerDID_def wallet_record empty_server_def
        clock1_def js_or_def)
qed



section \<open>Validation of the wallet address\<close>




section \<open>The custody variant of a stored record\<close>

text \<open>
  Claim C3, as amended: a creation that succeeds either finds the wallet-linked DID
  already stored and changes nothing, or writes one record whose \<^verbatim>\<open>type\<close> names its
  variant: \<^verbatim>\<open>wallet-based\<close> for \<^verbatim>\<open>did:ethr\<close> with a wallet address, written without any
  call to the signing engine; \<^verbatim>\<open>generated-key\<close> for \<^verbatim>\<open>did:ethr\<close> without one and
  \<^verbatim>\<open>self-issued\<close> for \<^verbatim>\<open>did:key\<close> (or no method), both stored under the DID that the
  engine's \<^verbatim>\<open>didManagerCreate\<close> returned. So the records whose key the server holds are
  exactly those of type \<^verbatim>\<open>generated-key\<close> or \<^verbatim>\<open>self-issued\<close>.
\<close>

theorem record_type_by_custody:
  assumes ok: "status (fst (did_create ag e clk req st)) = 200"
  shows "(snd (did_create ag e clk req st) = st \<and> isDIDRegistered st (didIdentifier e req)) \<or>
         (\<exists>d rec. dids (snd (did_create ag e clk req st)) = AList.update d (JObj rec) (dids st) \<and>
            ((provider req = Some ''did:ethr'' \<and> truthy_str (walletAddress req) \<and>
              obj_get rec ''type'' = JStr ''wallet-based'' \<and>
              agent_calls (snd (did_create ag e clk req st)) = agent_calls st) \<or>
             (provider req = Some ''did:ethr'' \<and> walletAddress req \<in> {None, Some []} \<and>
              obj_get rec ''type'' = JStr ''generated-key'' \<and>
              (\<exists>opts i. ag (agent_calls st) opts = Inr i \<and> did i = d \<and>
                 agent_calls (snd (did_create ag e clk req st)) =
                   agent_calls st @ [DidManagerCreate opts])) \<or>
             (provider req \<in> {None, Some ''did:key''} \<and>
              obj_get rec ''type'' = JStr ''self-issued'' \<and>
              (\<exists>opts i. ag (agent_calls st) opts = Inr i \<and> did i = d \<and>
                 agent_calls (snd (did_create ag e clk req st)) =
                   agent_calls st @ [DidManagerCreate opts]))))"
proof -
  define prov where "prov = (case provider req of None \<Rightarrow> ''did:key'' | Some p \<Rightarrow> p)"
  consider (wallet) "prov = ''did:ethr''" "truthy_str (walletAddress req)"
    | (generated) "prov = ''did:ethr''" "\<not> truthy_str (walletAddress req)"
    | (key) "prov = ''did:key''"
    | (other) "prov \<noteq> ''did:ethr''" "prov \<noteq> ''did:key''"
    by blast
  then show ?thesis
  proof cases
    case wallet
    then obtain w where w: "walletAddress req = Some w" "w \<noteq> []"
      by (cases "walletAddress req") auto
    from wallet have p: "provider req = Some ''did:ethr''"
      by (auto simp: prov_def split: option.splits)
    show ?thesis
    proof (cases "valid_address w")
      case False
      with p w ok show ?thesis
        by (simp add: did_create_def create_try_def invalid_address_response_def)
    next
      case True
      note first = did_create_wallet [OF p w(1) True, of ag e clk st]
      show ?thesis
      proof (cases "isDIDRegistered st (didIdentifier e req)")
        case True
        then show ?thesis by (simp add: first)
      next
        case False
        have "dids (snd (did_create ag e clk req st)) =
                AList.update (didIdentifier e req)
                  (JObj (spread [(''did'', JStr (didIdentifier e req)),
                                 (''createdAt'', JStr (isoNow clk))]
                           (wallet_metadata w (targetNetwork e req) (aliasName req)))) (dids st)"
          using False by (simp add: first dids_registerDID)
        moreover have "obj_get (spread [(''did'', JStr (didIdentifier e req)),
                                 (''createdAt'', JStr (isoNow clk))]
                           (wallet_metadata w (targetNetwork e req) (aliasName req))) ''type''
                         = JStr ''wallet-based''"
          by (simp add: wallet_record obj_get_def)
        moreover have "agent_calls (snd (did_create ag e clk req st)) = agent_calls st"
          using False by (simp add: first)
        ultimately show ?thesis using p w by auto
      qed
    qed
  next
    case generated
    from generated have p: "provider req = Some ''did:ethr''"
      by (auto simp: prov_def split: option.splits)
    from generated have w: "walletAddress req \<in> {None, Some []}"
      by (cases "walletAddress req") auto
    define opts where "opts =
       [ (''provider'', JStr ''did:ethr''),
         (''alias'', opt_str (js_or (aliasName req)
                        (Some (''did-generated-'' @ show_nat (dateNow clk))))),
         (''options'', JObj [ (''anchor'', JBool False),
                              (''network'', opt_str (name (getNetworkConfig e))) ]) ]"
    show ?thesis
    proof (cases "ag (agent_calls st) opts")
      case (Inl err)
      with p generated ok show ?thesis
        by (simp add: did_create_def create_try_def didManagerCreate_def opts_def
            error_response_def Let_def)
    next
      case (Inr i)
      let ?rec = "spread [(''did'', JStr (did i)), (''createdAt'', JStr (isoNow clk))]
                    (spread (identifier_obj i)
                       [ (''type'', JStr ''generated-key''),
                         (''note'', JStr ''This is a generated key. Veramo stores the private key.'') ])"
      have res: "snd (did_create ag e clk req st) =
          registerDID clk (did i)
            (spread (identifier_obj i)
               [ (''type'', JStr ''generated-key''),
                 (''note'', JStr ''This is a generated key. Veramo stores the private key.'') ])
            (st \<lparr> agent_calls := agent_calls st @ [DidManagerCreate opts] \<rparr>)"
        using p generated Inr
        by (simp add: did_create_def create_try_def didManagerCreate_def opts_def Let_def)
      have "dids (snd (did_create ag e clk req st)) = AList.update (did i) (JObj ?rec) (dids st)"
        by (simp add: res dids_registerDID)
      moreover have "obj_get ?rec ''type'' = JStr ''generated-key''" by (rule obj_get_tagged)
      moreover have "agent_calls (snd (did_create ag e clk req st)) =
                       agent_calls st @ [DidManagerCreate opts]"
        by (simp add: res)
      ultimately show ?thesis using p w Inr by blast
    qed
  next
    case key
    from key have p: "provider req \<in> {None, Some ''did:key''}"
      by (auto simp: prov_def split: option.splits)
    define opts where "opts =
       [ (''provider'', JStr ''did:key''),
         (''alias'', opt_str (js_or (aliasName req) (Some (''key-'' @ show_nat (dateNow clk))))) ]"
    show ?thesis
    proof (cases "ag (agent_calls st) opts")
      case (Inl err)
      with key ok show ?thesis
        by (simp add: did_create_def create_try_def didManagerCreate_def opts_def
            error_response_def Let_def prov_def)
    next
      case (Inr i)
      let ?rec = "spread [(''did'', JStr (did i)), (''createdAt'', JStr (isoNow clk))]
                    (spread (identifier_obj i)
                       [ (''type'', JStr ''self-issued''),
                         (''note'', JStr ''Self-issued DID, no blockchain required'') ])"
      have res: "snd (did_create ag e clk req st) =
          registerDID clk (did i)
            (spread (identifier_obj i)
               [ (''type'', JStr ''self-issued''),
                 (''note'', JStr ''Self-issued DID, no blockchain required'') ])
            (st \<lparr> agent_calls := agent_calls st @ [DidManagerCreate opts] \<rparr>)"
        using key Inr
        by (simp add: did_create_def create_try_def didManagerCreate_def opts_def Let_def prov_def)
      have "dids (snd (did_create ag e clk req st)) = AList.update (did i) (JObj ?rec) (dids st)"
        by (simp add: res dids_registerDID)
      moreover have "obj_get ?rec ''type'' = JStr ''self-issued''" by (rule obj_get_tagged)
      moreover have "agent_calls (snd (did_create ag e clk req st)) =
                       agent_calls st @ [DidManagerCreate opts]"
        by (simp add: res)
      ultimately show ?thesis using p Inr by blast
    qed
  next
    case other
    with ok show ?thesis
      by (simp add: did_create_def create_try_def unsupported_branch_def create_scope_def
          error_response_def Let_def prov_def)
  qed
qed

lemma server_after_key_eq:
  "server_after_key =
     \<lparr> dids = [(key_did, JObj
         [ (''did'', JStr key_did), (''createdAt'', JStr ''1970-01-01T00:00:01.000Z''),
           (''provider'', JStr ''did:key''), (''keys'', JArr []), (''services'', JArr []),
           (''type'', JStr ''self-issued''),
           (''note'', JStr ''Self-issued DID, no blockchain required'') ])],
       agent_calls = [DidManagerCreate [(''provider'', JStr ''did:key''), (''alias'', JStr ''holder'')]] \<rparr>"
  by (simp add: server_after_key_def did_create_def create_try_def key_request_def
      didManagerCreate_def empty_server_def registerDID_def identifier_obj_def spread_def
      key_did_def clock1_def js_or_def Let_def)

theorem record_type_by_custody_witness:
  "status (fst (did_create agent_key env_default clock1 key_request empty_server)) = 200 \<and>
   ((snd (did_create agent_key env_default clock1 key_request empty_server) = empty_server \<and>
     isDIDRegistered empty_server (didIdentifier env_default key_request)) \<or>
    (\<exists>d rec. dids (snd (did_create agent_key env_default clock1 key_request empty_server)) =
               AList.update d (JObj rec) (dids empty_server) \<and>
       ((provider key_request = Some ''did:ethr'' \<and> truthy_str (walletAddress key_request) \<and>
         obj_get rec ''type'' = JStr ''wallet-based'' \<and>
         agent_calls (snd (did_create agent_key env_default clock1 key_request empty_server)) =
           agent_calls empty_server) \<or>
        (provider key_request = Some ''did:ethr'' \<and> walletAddress key_request \<in> {None, Some []} \<and>
         obj_get rec ''type'' = JStr ''generated-key'' \<and>
         (\<exists>opts i. agent_key (agent_calls empty_server) opts = Inr i \<and> did i = d \<and>
            agent_calls (snd (did_create agent_key env_default clock1 key_request empty_server)) =
              agent_calls empty_server @ [DidManagerCreate opts])) \<or>
        (provider key_request \<in> {None, Some ''did:key''} \<and>
         obj_get rec ''type'' = JStr ''self-issued'' \<and>
         (\<exists>opts i. agent_key (agent_calls empty_server) opts = Inr i \<and> did i = d \<and>
            agent_calls (snd (did_create agent_key env_default clock1 key_request empty_server)) =
              agent_calls empty_server @ [DidManagerCreate opts]))))) \<and>
   field (getDID server_after_key key_did) ''type'' = JStr ''self-issued'' \<and>
   length (agent_calls server_after_key) = 1"
proof -
  have ok: "status (fst (did_create agent_key env_default clock1 key_request empty_server)) = 200"
    by (simp add: did_create_def create_try_def key_request_def didManagerCreate_def
        self_issued_response_def Let_def)
  have stored: "field (getDID server_after_key key_did) ''type'' = JStr ''self-issued''"
    by (simp add: server_after_key_eq getDID_def field_def obj_get_def)
  have calls: "length (agent_calls server_after_key) = 1"
    by (simp add: server_after_key_eq)
  show ?thesis
    by (intro conjI) (rule ok, rule record_type_by_custody [OF ok], rule stored, rule calls)
qed

text \<open>
  The claim as stated fails: no record has a \<^verbatim>\<open>signingCapable\<close> field, so it is not true
  on a self-issued record either.
\<close>

theorem record_type_counterexample:
  "provider key_request = Some ''did:key'' \<and>
   field (getDID server_after_key key_did) ''type'' = JStr ''self-issued'' \<and>
   field (getDID server_after_key key_did) ''signingCapable'' = JUndefined \<and>
   field (getDID server_after_wallet wallet_did) ''type'' = JStr ''wallet-based'' \<and>
   field (getDID server_after_wallet wallet_did) ''signingCapable'' = JUndefined"
  by (simp add: server_after_key_eq server_after_wallet_eq getDID_def field_def obj_get_def
      key_request_def)

section \<open>Strings: splitting and searching\<close>











section \<open>Resolution and its fallback\<close>





section \<open>The object fallback of the SKALE-compatible verification\<close>

text \<open>
  Claim C10, as amended: whenever the standard verification throws, a credential supplied
  as a JSON object whose \<^verbatim>\<open>credentialSubject\<close> is truthy (anything but \<^verbatim>\<open>null\<close>,
  \<^verbatim>\<open>false\<close>, \<^verbatim>\<open>0\<close> and the empty string) is answered with success and
  \<^verbatim>\<open>verified: true\<close>; the answer is built from the credential alone, whatever its issuer
  or proof, so no signature is checked for it.
\<close>

theorem verify_skale_object_fallback:
  assumes "verifyCredential (JObj fs) = Inl err"
    and "truthy (obj_get fs ''credentialSubject'')"
  shows "verify_skale verifyCredential rt (JObj fs) = fallback_object_response (JObj fs) \<and>
         status (verify_skale verifyCredential rt (JObj fs)) = 200 \<and>
         field (body (verify_skale verifyCredential rt (JObj fs))) ''success'' = JBool True \<and>
         field (field (body (verify_skale verifyCredential rt (JObj fs))) ''verification'')
           ''verified'' = JBool True"
  using assms
  by (simp add: verify_skale_def fallback_try_def fallback_object_response_def field_def
      obj_get_def)

theorem verify_skale_object_fallback_witness:
  "verify_skale verifier_throws runtime_plain credential_unsigned =
     fallback_object_response credential_unsigned"
  using verify_skale_object_fallback [of verifier_throws
      "[ (''issuer'', JStr ''did:key:anyone''),
         (''credentialSubject'', JObj [ (''degree'', JStr ''PhD'') ]) ]"
      "''EVM revert instruction''" runtime_plain]
  by (simp add: credential_unsigned_def obj_get_def)

text \<open>
  The claim as stated fails for an object whose \<^verbatim>\<open>credentialSubject\<close> is \<^verbatim>\<open>null\<close>: the
  field is there, yet the answer is the failure 500.
\<close>

theorem verify_skale_counterexample:
  "field credential_null_subject ''credentialSubject'' = JNull \<and>
   verifier_throws credential_null_subject = Inl ''EVM revert instruction'' \<and>
   verify_skale verifier_throws runtime_plain credential_null_subject =
     both_failed_response ''EVM revert instruction''
       ''Unable to verify credential with fallback methods'' \<and>
   status (verify_skale verifier_throws runtime_plain credential_null_subject) = 500"
  by (simp add: credential_null_subject_def verify_skale_def fallback_try_def field_def
      obj_get_def both_failed_response_def)

end
